theory Spec2Isabelle
  imports Complex_Main "HOL-Library.Sublist"
begin

section \<open>JavaScript values used by the scorer\<close>

text \<open>
  Errors thrown by the runtime, with their message (\<^verbatim>\<open>err.message\<close>). A rejected
  promise is the value \<open>Inl err\<close>, a fulfilled one \<open>Inr v\<close>.
\<close>

datatype js_error = TypeError string | RangeError string

fun message :: "js_error \<Rightarrow> string" where
  "message (TypeError m) = m"
| "message (RangeError m) = m"

text \<open>
  \<^verbatim>\<open>v || d\<close> where \<open>v\<close> is a number or \<^verbatim>\<open>undefined\<close> (\<open>None\<close>): both
  \<^verbatim>\<open>undefined\<close> and \<open>0\<close> are falsy, so the default \<open>d\<close> is taken for them.
\<close>

definition or_num :: "int option \<Rightarrow> int \<Rightarrow> int" where
  "or_num v d = (case v of None \<Rightarrow> d | Some n \<Rightarrow> if n = 0 then d else n)"

text \<open>\<^verbatim>\<open>s || d\<close> where \<open>s\<close> is a string or \<^verbatim>\<open>undefined\<close>: the empty string is falsy.\<close>

definition or_str :: "string option \<Rightarrow> string \<Rightarrow> string" where
  "or_str v d = (case v of None \<Rightarrow> d | Some s \<Rightarrow> if s = [] then d else s)"

text \<open>Decimal rendering of a number inside a template literal.\<close>

fun show_nat :: "nat \<Rightarrow> string" where
  "show_nat n =
     (if n < 10 then [char_of (48 + n)]
      else show_nat (n div 10) @ [char_of (48 + n mod 10)])"

declare show_nat.simps [simp del]

definition show_int :: "int \<Rightarrow> string" where
  "show_int i = (if i < 0 then CHR ''-'' # show_nat (nat (- i)) else show_nat (nat i))"

text \<open>
  A string is a list of 8-bit characters, one for each code unit of the JavaScript string;
  the classes of letters, digits and white space are the ASCII ones.
  \<^verbatim>\<open>String.prototype.toLowerCase\<close> on the ASCII letters:
\<close>

definition lower_char :: "char \<Rightarrow> char" where
  "lower_char c =
     (let n = (of_char c :: nat)
      in if 65 \<le> n \<and> n \<le> 90 then char_of (n + 32) else c)"

definition toLowerCase :: "string \<Rightarrow> string" where
  "toLowerCase s = map lower_char s"

section \<open>Data model: components, breakdown, result\<close>

text \<open>
  The object an analyzer returns is \<^verbatim>\<open>{score, max, details}\<close>; the object the
  engine substitutes for a rejected analyzer is \<^verbatim>\<open>{score, max, error}\<close>. A property
  that an object does not have reads as \<^verbatim>\<open>undefined\<close>: \<open>None\<close>.
\<close>

record 'd component =
  score :: int
  cmax :: int
  details :: "'d option"
  error :: "string option"

record issue_counts =
  critical :: nat
  high :: nat
  medium :: nat
  low :: nat

record clawdex_details =
  status :: string
  clawdex_score :: int
  clawdex_max :: int
  clawdex_error :: "string option"

record cisco_details =
  cisco_score :: int
  cisco_max :: int
  issues :: issue_counts
  cisco_error :: "string option"
  scannerAvailable :: bool

record security_details =
  clawdex :: clawdex_details
  cisco :: cisco_details

record doc_file =
  file_exists :: bool
  file_length :: nat
  sufficient :: "bool option"

record docs_details =
  skillMd :: "doc_file option"
  readmeMd :: "doc_file option"
  examples :: bool
  references :: bool

record secrets_details =
  found :: nat
  clean :: bool
  samples :: "string list option"

record errorHandling_details =
  filesWithHandling :: nat
  errorHandling_ratio :: int

record comments_details =
  averageDensity :: rat

record naming_details =
  filesWithGoodNaming :: nat
  naming_ratio :: int

record code_details =
  analyzedFiles :: nat
  totalFiles :: nat
  secrets :: "secrets_details option"
  errorHandling :: "errorHandling_details option"
  comments :: "comments_details option"
  naming :: "naming_details option"

record git_details =
  git_exists :: bool

text \<open>
  \<^verbatim>\<open>details.lastCommit\<close> is \<^verbatim>\<open>{date, daysAgo, isRecent}\<close> when a commit date was
  read and \<^verbatim>\<open>{exists: false}\<close> otherwise. \<open>date\<close> holds the instant (milliseconds
  since the epoch) that the source renders with \<^verbatim>\<open>toISOString\<close>.
\<close>

datatype lastCommit_details =
  LastCommit (date: int) (daysAgo: int) (isRecent: bool)
| NoLastCommit

record version_details =
  version_exists :: bool
  version_string :: "string option"
  version_source :: "string option"

record maintenance_details =
  git :: "git_details option"
  lastCommit :: "lastCommit_details option"
  version :: "version_details option"

record breakdown =
  security :: "security_details component"
  documentation :: "docs_details component"
  codeQuality :: "code_details component"
  maintenance :: "maintenance_details component"

record score_result =
  skill :: string
  path :: string
  scannedAt :: int
  scanDurationMs :: int
  overallScore :: int
  maxScore :: int
  grade :: string
  result_breakdown :: breakdown
  recommendations :: "string list"

section \<open>The scorer engine\<close>

subsection \<open>calculateGrade\<close>

definition calculateGrade :: "int \<Rightarrow> string" where
  "calculateGrade sc =
     (if sc \<ge> 90 then ''A''
      else if sc \<ge> 80 then ''B''
      else if sc \<ge> 70 then ''C''
      else if sc \<ge> 60 then ''D''
      else ''F'')"

subsection \<open>generateRecommendations\<close>

text \<open>The warning sign U+26A0 U+FE0F that opens the two critical messages, as UTF-8 bytes.\<close>

definition warning_sign :: string where
  "warning_sign = [char_of (0xE2::nat), char_of (0x9A::nat), char_of (0xA0::nat),
                   char_of (0xEF::nat), char_of (0xB8::nat), char_of (0x8F::nat)]"

definition msg_malicious :: string where
  "msg_malicious = warning_sign @ '' CRITICAL: Skill flagged as malicious by Clawdex - DO NOT USE''"

definition msg_critical :: "nat \<Rightarrow> string" where
  "msg_critical n = ''Fix '' @ show_nat n @ '' critical security issue(s)''"

definition msg_high :: "nat \<Rightarrow> string" where
  "msg_high n = ''Address '' @ show_nat n @ '' high-severity issue(s)''"

definition msg_add_skillMd :: string where
  "msg_add_skillMd = ''Add SKILL.md file with usage documentation''"

definition msg_expand_skillMd :: string where
  "msg_expand_skillMd = ''Expand SKILL.md content (currently < 500 characters)''"

definition msg_examples :: string where
  "msg_examples = ''Add examples or usage section to documentation''"

definition msg_references :: string where
  "msg_references = ''Add references section with related links/resources''"

definition msg_secrets :: "nat \<Rightarrow> string" where
  "msg_secrets n = warning_sign @ '' Remove '' @ show_nat n @ '' hardcoded secret(s)''"

definition msg_errorHandling :: string where
  "msg_errorHandling = ''Improve error handling coverage in code''"

definition msg_comments :: string where
  "msg_comments = ''Add more code comments and documentation''"

definition msg_git :: string where
  "msg_git = ''Initialize git repository for version control''"

definition msg_update :: "int \<Rightarrow> string" where
  "msg_update n = ''Update repository (last commit '' @ show_int n @ '' days ago)''"

definition msg_version :: string where
  "msg_version = ''Add version information (package.json, CHANGELOG, or VERSION file)''"

text \<open>
  The conditions of the source, on values that may be \<^verbatim>\<open>undefined\<close>: \<^verbatim>\<open>!x\<close> holds
  for \<^verbatim>\<open>undefined\<close> and \<^verbatim>\<open>false\<close>; a comparison with \<^verbatim>\<open>undefined\<close> is false.
\<close>

definition falsy :: "bool option \<Rightarrow> bool" where
  "falsy v = (case v of None \<Rightarrow> True | Some b \<Rightarrow> \<not> b)"

definition secrets_found :: "code_details \<Rightarrow> nat option" where
  "secrets_found d = map_option found (secrets d)"

definition days_ago :: "maintenance_details \<Rightarrow> int option" where
  "days_ago d =
     (case lastCommit d of
        Some (LastCommit dt n r) \<Rightarrow> Some n
      | Some NoLastCommit \<Rightarrow> None
      | None \<Rightarrow> None)"

text \<open>
  The four blocks of the function, one per category, each a sequence of conditional
  \<^verbatim>\<open>push\<close> calls: the strings a block appends, in order.
\<close>

definition security_recommendations :: "security_details \<Rightarrow> string list" where
  "security_recommendations sec =
     (if status (clawdex sec) = ''malicious'' then [msg_malicious] else []) @
     (if critical (issues (cisco sec)) > 0
      then [msg_critical (critical (issues (cisco sec)))] else []) @
     (if high (issues (cisco sec)) > 0
      then [msg_high (high (issues (cisco sec)))] else [])"

definition documentation_recommendations :: "docs_details \<Rightarrow> string list" where
  "documentation_recommendations doc =
     (if falsy (map_option file_exists (skillMd doc)) then [msg_add_skillMd]
      else if falsy (Option.bind (skillMd doc) sufficient) then [msg_expand_skillMd]
      else []) @
     (if \<not> examples doc then [msg_examples] else []) @
     (if \<not> references doc then [msg_references] else [])"

definition code_recommendations :: "code_details \<Rightarrow> string list" where
  "code_recommendations code =
     (case secrets_found code of
        None \<Rightarrow> []
      | Some n \<Rightarrow> if n > 0 then [msg_secrets n] else []) @
     (case map_option errorHandling_ratio (errorHandling code) of
        None \<Rightarrow> []
      | Some r \<Rightarrow> if r < 30 then [msg_errorHandling] else []) @
     (case map_option averageDensity (comments code) of
        None \<Rightarrow> []
      | Some r \<Rightarrow> if r < 10 then [msg_comments] else [])"

definition maintenance_recommendations :: "maintenance_details \<Rightarrow> string list" where
  "maintenance_recommendations mnt =
     (if falsy (map_option git_exists (git mnt)) then [msg_git] else []) @
     (case days_ago mnt of
        None \<Rightarrow> []
      | Some n \<Rightarrow> if n > 180 then [msg_update n] else []) @
     (if falsy (map_option version_exists (version mnt)) then [msg_version] else [])"

text \<open>
  Reading \<^verbatim>\<open>breakdown.<category>.details.<property>\<close> throws a \<open>TypeError\<close> when
  \<^verbatim>\<open>details\<close> is \<^verbatim>\<open>undefined\<close>; the first such read ends the function.
\<close>

definition generateRecommendations :: "breakdown \<Rightarrow> js_error + string list" where
  "generateRecommendations b =
     (case details (security b) of
        None \<Rightarrow> Inl (TypeError ''Cannot read properties of undefined (reading 'clawdex')'')
      | Some sec \<Rightarrow>
     (case details (documentation b) of
        None \<Rightarrow> Inl (TypeError ''Cannot read properties of undefined (reading 'skillMd')'')
      | Some doc \<Rightarrow>
     (case details (codeQuality b) of
        None \<Rightarrow> Inl (TypeError ''Cannot read properties of undefined (reading 'secrets')'')
      | Some code \<Rightarrow>
     (case details (maintenance b) of
        None \<Rightarrow> Inl (TypeError ''Cannot read properties of undefined (reading 'git')'')
      | Some mnt \<Rightarrow>
          Inr (security_recommendations sec @ documentation_recommendations doc @
               code_recommendations code @ maintenance_recommendations mnt)))))"

text \<open>
  The strings of the thirteen \<^verbatim>\<open>push\<close> statements, in the order in which the
  source has them, with the numbers they would carry for this breakdown.
\<close>

definition priority_order ::
  "security_details \<Rightarrow> docs_details \<Rightarrow> code_details \<Rightarrow> maintenance_details \<Rightarrow> string list" where
  "priority_order sec doc code mnt =
     [msg_malicious,
      msg_critical (critical (issues (cisco sec))),
      msg_high (high (issues (cisco sec))),
      msg_add_skillMd,
      msg_expand_skillMd,
      msg_examples,
      msg_references,
      msg_secrets (case secrets_found code of None \<Rightarrow> 0 | Some n \<Rightarrow> n),
      msg_errorHandling,
      msg_comments,
      msg_git,
      msg_update (case days_ago mnt of None \<Rightarrow> 0 | Some n \<Rightarrow> n),
      msg_version]"

subsection \<open>scoreSkill\<close>

text \<open>
  The handler attached to each analyzer promise with \<^verbatim>\<open>.catch\<close>: a rejection becomes
  \<^verbatim>\<open>{score: 0, max, error: err.message}\<close>, an object with no \<^verbatim>\<open>details\<close>.
\<close>

definition catch_default :: "int \<Rightarrow> js_error + 'd component \<Rightarrow> 'd component" where
  "catch_default mx p =
     (case p of
        Inr c \<Rightarrow> c
      | Inl err \<Rightarrow> \<lparr>score = 0, cmax = mx, details = None, error = Some (message err)\<rparr>)"

text \<open>
  The body of \<^verbatim>\<open>scoreSkill\<close> once the four promises have settled: the sum, the
  breakdown, the recommendations and the result object. \<open>startTime\<close> and \<open>endTime\<close>
  are the two readings of \<^verbatim>\<open>Date.now()\<close>, \<open>scanTime\<close> that of \<^verbatim>\<open>new Date()\<close>.
\<close>

definition merge_results ::
  "string \<Rightarrow> string \<Rightarrow> int \<Rightarrow> int \<Rightarrow> int \<Rightarrow>
   security_details component \<Rightarrow> docs_details component \<Rightarrow>
   code_details component \<Rightarrow> maintenance_details component \<Rightarrow> js_error + score_result" where
  "merge_results name skillPath startTime endTime scanTime sec doc code mnt =
     (let overall = score sec + score doc + score code + score mnt;
          bd = \<lparr>security = sec, documentation = doc, codeQuality = code, maintenance = mnt\<rparr>
      in case generateRecommendations bd of
           Inl err \<Rightarrow> Inl err
         | Inr recs \<Rightarrow>
             Inr \<lparr>skill = name, path = skillPath, scannedAt = scanTime,
                  scanDurationMs = endTime - startTime, overallScore = overall,
                  maxScore = 100, grade = calculateGrade overall,
                  result_breakdown = bd, recommendations = recs\<rparr>)"

section \<open>The world a scan observes\<close>

text \<open>
  Every analyzer does I/O: an HTTP request, two subprocesses, file-system reads, the
  clock. The outcome of each such operation is an input of the model, collected in one
  record. The regular-expression probes of the documentation and code analyzers
  (\<^verbatim>\<open>hasExamples\<close>, \<^verbatim>\<open>findHardcodedSecrets\<close>, ...) are taken as given functions of
  the text they are applied to.
\<close>

text \<open>
  The reputation request: \<^verbatim>\<open>fetch\<close> or \<^verbatim>\<open>response.json()\<close> rejects with a message
  (network error, body that is not JSON); or the response is not ok, with its HTTP
  status; or the body is parsed, and \<^verbatim>\<open>data.status\<close> is a string or absent.
\<close>

datatype fetch_outcome =
  FetchRejected string
| NotOk nat
| Body "string option"

record finding =
  severity :: "string option"

text \<open>
  The scanner subprocess: \<^verbatim>\<open>execAsync\<close> rejects with a message (executable not found,
  non-zero exit status, output beyond the buffer); or it prints text that
  \<^verbatim>\<open>JSON.parse\<close> refuses; or it prints an object whose \<^verbatim>\<open>findings\<close> is an array
  of findings, or is absent or no array (\<open>None\<close>).
\<close>

datatype scanner_outcome =
  ExecRejected string
| Unparseable
| Scanned "finding list option"

text \<open>A file probed with \<^verbatim>\<open>access\<close> and then read with \<^verbatim>\<open>readFile\<close>.\<close>

datatype file_probe = Missing | Unreadable | Content string

text \<open>
  A file listed by \<^verbatim>\<open>getAllFiles\<close>: its path, and its text when \<^verbatim>\<open>readFile\<close>
  succeeds.
\<close>

record code_file =
  file_path :: string
  file_text :: "string option"

text \<open>
  \<^verbatim>\<open>git log -1 --format=%ct\<close>: the command fails, or it prints a text.
\<close>

datatype git_log_outcome = GitLogFailed | GitLogStdout string

text \<open>
  The fields, by the argument the source passes: the reputation request for a skill
  name; the scanner run on a path; the two documentation files under a path; whether a
  pattern of \<^verbatim>\<open>hasExamples\<close> or of \<^verbatim>\<open>hasReferences\<close> matches a text; the files
  the recursive walk of a path lists; the four probes applied to the text of a code file;
  whether \<^verbatim>\<open>.git\<close> under a path can be accessed; the git log run in a path; the
  \<^verbatim>\<open>version\<close> of \<^verbatim>\<open>package.json\<close> under a path, when the file is read and parsed
  and the property is truthy; whether a changelog file of a given name under a path can
  be accessed; the text of \<^verbatim>\<open>VERSION\<close> under a path, when it is read;
  \<^verbatim>\<open>path.resolve\<close>; the offset of local time from UTC in milliseconds; and the five
  readings of the clock, in milliseconds since the epoch: \<^verbatim>\<open>Date.now()\<close> when
  \<^verbatim>\<open>scoreSkill\<close> starts, \<^verbatim>\<open>new Date()\<close> and \<^verbatim>\<open>Date.now()\<close> inside the
  maintenance analyzer, \<^verbatim>\<open>Date.now()\<close> when the analyzers have settled, and
  \<^verbatim>\<open>new Date()\<close> for \<^verbatim>\<open>scannedAt\<close>.
\<close>

record world =
  fetch_clawdex :: "string \<Rightarrow> fetch_outcome"
  exec_scanner :: "string \<Rightarrow> scanner_outcome"
  probe_skillMd :: "string \<Rightarrow> file_probe"
  probe_readmeMd :: "string \<Rightarrow> file_probe"
  examples_patterns :: "string \<Rightarrow> bool"
  references_patterns :: "string \<Rightarrow> bool"
  getAllFiles :: "string \<Rightarrow> code_file list"
  findHardcodedSecrets :: "string \<Rightarrow> string list"
  hasErrorHandling :: "string \<Rightarrow> bool"
  calculateCommentDensity :: "string \<Rightarrow> rat"
  followsNamingConventions :: "string \<Rightarrow> bool"
  access_git :: "string \<Rightarrow> bool"
  exec_git_log :: "string \<Rightarrow> git_log_outcome"
  package_json_version :: "string \<Rightarrow> string option"
  access_changelog :: "string \<Rightarrow> string \<Rightarrow> bool"
  read_VERSION :: "string \<Rightarrow> string option"
  resolve :: "string \<Rightarrow> string"
  tz_offset :: int
  clock_start :: int
  clock_six_months :: int
  clock_days :: int
  clock_end :: int
  clock_scanned :: int

section \<open>The security analyzer\<close>

record clawdex_result =
  cr_status :: string
  cr_score :: int
  cr_error :: "string option"

definition scoreMap :: "(string \<times> int) list" where
  "scoreMap = [(''benign'', 20), (''unknown'', 10), (''malicious'', 0)]"

definition checkClawdex :: "world \<Rightarrow> string \<Rightarrow> clawdex_result" where
  "checkClawdex w skillName =
     (case fetch_clawdex w skillName of
        FetchRejected m \<Rightarrow> \<lparr>cr_status = ''error'', cr_score = 10, cr_error = Some m\<rparr>
      | NotOk code \<Rightarrow>
          \<lparr>cr_status = ''unknown'', cr_score = 10, cr_error = Some (''HTTP '' @ show_nat code)\<rparr>
      | Body st \<Rightarrow>
          (let status_value = or_str st ''unknown''
           in \<lparr>cr_status = status_value, cr_score = or_num (map_of scoreMap status_value) 10,
               cr_error = None\<rparr>))"

record cisco_result =
  sr_score :: int
  sr_issues :: issue_counts
  sr_error :: "string option"
  sr_scannerAvailable :: "bool option"

definition no_issues :: issue_counts where
  "no_issues = \<lparr>critical = 0, high = 0, medium = 0, low = 0\<rparr>"

text \<open>
  One round of the \<^verbatim>\<open>forEach\<close> over the findings: the counter named by the
  lower-cased severity (\<^verbatim>\<open>'low'\<close> when the finding has none) is incremented when it
  is one of the four keys.
\<close>

definition count_finding :: "issue_counts \<Rightarrow> finding \<Rightarrow> issue_counts" where
  "count_finding iss f =
     (let sev = toLowerCase (or_str (severity f) ''low'')
      in if sev = ''critical'' then iss\<lparr>critical := critical iss + 1\<rparr>
         else if sev = ''high'' then iss\<lparr>high := high iss + 1\<rparr>
         else if sev = ''medium'' then iss\<lparr>medium := medium iss + 1\<rparr>
         else if sev = ''low'' then iss\<lparr>low := low iss + 1\<rparr>
         else iss)"

definition runCiscoScanner :: "world \<Rightarrow> string \<Rightarrow> cisco_result" where
  "runCiscoScanner w skillPath =
     (case exec_scanner w skillPath of
        ExecRejected m \<Rightarrow>
          \<lparr>sr_score = 10, sr_issues = no_issues, sr_error = Some m,
           sr_scannerAvailable = Some False\<rparr>
      | Unparseable \<Rightarrow>
          \<lparr>sr_score = 15, sr_issues = no_issues,
           sr_error = Some ''Scanner output parsing failed'', sr_scannerAvailable = None\<rparr>
      | Scanned fs \<Rightarrow>
          (let iss = (case fs of None \<Rightarrow> no_issues | Some l \<Rightarrow> foldl count_finding no_issues l);
               sc = 20 - int (critical iss) * 10 - int (high iss) * 5
                       - int (medium iss) * 2 - int (low iss) * 1
           in \<lparr>sr_score = max 0 sc, sr_issues = iss, sr_error = None,
               sr_scannerAvailable = None\<rparr>))"

definition analyzeSecurity ::
  "world \<Rightarrow> string \<Rightarrow> string \<Rightarrow> js_error + security_details component" where
  "analyzeSecurity w skillName skillPath =
     (let clawdexResult = checkClawdex w skillName;
          ciscoResult = runCiscoScanner w skillPath;
          totalScore = cr_score clawdexResult + sr_score ciscoResult
      in Inr \<lparr>score = totalScore, cmax = 40,
              details = Some
                \<lparr>clawdex =
                   \<lparr>status = cr_status clawdexResult, clawdex_score = cr_score clawdexResult,
                    clawdex_max = 20, clawdex_error = cr_error clawdexResult\<rparr>,
                 cisco =
                   \<lparr>cisco_score = sr_score ciscoResult, cisco_max = 20,
                    issues = sr_issues ciscoResult, cisco_error = sr_error ciscoResult,
                    scannerAvailable = (sr_scannerAvailable ciscoResult \<noteq> Some False)\<rparr>\<rparr>,
              error = None\<rparr>)"

section \<open>The documentation analyzer\<close>

definition fileExists :: "file_probe \<Rightarrow> bool" where
  "fileExists p = (case p of Missing \<Rightarrow> False | Unreadable \<Rightarrow> True | Content s \<Rightarrow> True)"

definition readFileSafe :: "file_probe \<Rightarrow> string option" where
  "readFileSafe p = (case p of Missing \<Rightarrow> None | Unreadable \<Rightarrow> None | Content s \<Rightarrow> Some s)"

definition hasExamples :: "world \<Rightarrow> string \<Rightarrow> bool" where
  "hasExamples w content = (if content = [] then False else examples_patterns w content)"

definition hasReferences :: "world \<Rightarrow> string \<Rightarrow> bool" where
  "hasReferences w content = (if content = [] then False else references_patterns w content)"

text \<open>
  The branch shared by \<^verbatim>\<open>SKILL.md\<close> and \<^verbatim>\<open>README.md\<close>: the points and the details
  entry for a file that exists (or not), with its text (or \<^verbatim>\<open>null\<close>), against a
  length threshold. The entry of a file that passes has no \<^verbatim>\<open>sufficient\<close> property.
\<close>

definition doc_entry :: "bool \<Rightarrow> string option \<Rightarrow> nat \<Rightarrow> int \<Rightarrow> int \<times> doc_file" where
  "doc_entry ex content threshold pts =
     (case content of
        None \<Rightarrow> (0, \<lparr>file_exists = ex, file_length = 0, sufficient = Some False\<rparr>)
      | Some s \<Rightarrow>
          if ex \<and> s \<noteq> [] \<and> length s > threshold
          then (pts, \<lparr>file_exists = True, file_length = length s, sufficient = None\<rparr>)
          else (0, \<lparr>file_exists = ex, file_length = length s, sufficient = Some False\<rparr>))"

definition analyzeDocs :: "world \<Rightarrow> string \<Rightarrow> js_error + docs_details component" where
  "analyzeDocs w skillPath =
     (let skillMdExists = fileExists (probe_skillMd w skillPath);
          readmeExists = fileExists (probe_readmeMd w skillPath);
          skillContent = (if skillMdExists then readFileSafe (probe_skillMd w skillPath) else None);
          readmeContent = (if readmeExists then readFileSafe (probe_readmeMd w skillPath) else None);
          skill_entry = doc_entry skillMdExists skillContent 500 10;
          readme_entry = doc_entry readmeExists readmeContent 300 5;
          combinedContent = or_str skillContent [] @ or_str readmeContent [];
          hasExamplesSection = hasExamples w combinedContent;
          hasReferencesSection = hasReferences w combinedContent
      in Inr \<lparr>score = fst skill_entry + fst readme_entry
                      + (if hasExamplesSection then 3 else 0)
                      + (if hasReferencesSection then 2 else 0),
              cmax = 20,
              details = Some
                \<lparr>skillMd = Some (snd skill_entry), readmeMd = Some (snd readme_entry),
                 examples = hasExamplesSection, references = hasReferencesSection\<rparr>,
              error = None\<rparr>)"

section \<open>The code-quality analyzer\<close>

text \<open>
  Numbers that are not integers (ratios, comment densities) are exact rationals here,
  where the source computes with IEEE doubles. \<^verbatim>\<open>Math.round\<close> rounds half up.
\<close>

definition js_round :: "rat \<Rightarrow> int" where
  "js_round x = \<lfloor>x + 1 / 2\<rfloor>"

definition endsWith :: "string \<Rightarrow> string \<Rightarrow> bool" where
  "endsWith s suf = (length suf \<le> length s \<and> drop (length s - length suf) s = suf)"

text \<open>The counters of the loop over the files.\<close>

record code_totals =
  totalSecretFindings :: "string list"
  filesWithErrorHandling :: nat
  totalCommentDensity :: rat
  totalGoodNaming :: nat
  totalAnalyzed :: nat

definition no_totals :: code_totals where
  "no_totals = \<lparr>totalSecretFindings = [], filesWithErrorHandling = 0,
                 totalCommentDensity = 0, totalGoodNaming = 0, totalAnalyzed = 0\<rparr>"

text \<open>
  One round of the loop: a file that cannot be read is skipped, a markdown file is
  skipped after it was read, any other file is counted and probed.
\<close>

definition analyze_file :: "world \<Rightarrow> code_totals \<Rightarrow> code_file \<Rightarrow> code_totals" where
  "analyze_file w t f =
     (case file_text f of
        None \<Rightarrow> t
      | Some content \<Rightarrow>
          if endsWith (file_path f) ''.md'' then t
          else \<lparr>totalSecretFindings = totalSecretFindings t @ findHardcodedSecrets w content,
                filesWithErrorHandling =
                  filesWithErrorHandling t + (if hasErrorHandling w content then 1 else 0),
                totalCommentDensity = totalCommentDensity t + calculateCommentDensity w content,
                totalGoodNaming =
                  totalGoodNaming t + (if followsNamingConventions w content then 1 else 0),
                totalAnalyzed = totalAnalyzed t + 1\<rparr>)"

definition analyzeCode :: "world \<Rightarrow> string \<Rightarrow> js_error + code_details component" where
  "analyzeCode w skillPath =
     (let files = getAllFiles w skillPath;
          t = foldl (analyze_file w) no_totals files;
          n = totalAnalyzed t;
          errorHandlingRatio =
            (if n > 0 then rat_of_nat (filesWithErrorHandling t) / rat_of_nat n else 0);
          avgCommentDensity = (if n > 0 then totalCommentDensity t / rat_of_nat n else 0);
          namingRatio = (if n > 0 then rat_of_nat (totalGoodNaming t) / rat_of_nat n else 0)
      in Inr \<lparr>score = (if totalSecretFindings t = [] then 10 else 0)
                      + (if errorHandlingRatio \<ge> 3 / 10 then 5 else 0)
                      + (if avgCommentDensity \<ge> 10 then 3 else 0)
                      + (if namingRatio \<ge> 1 / 2 then 2 else 0),
              cmax = 20,
              details = Some
                \<lparr>analyzedFiles = n, totalFiles = length files,
                 secrets = Some
                   (if totalSecretFindings t = []
                    then \<lparr>found = 0, clean = True, samples = None\<rparr>
                    else \<lparr>found = length (totalSecretFindings t), clean = False,
                          samples = Some (take 3 (totalSecretFindings t))\<rparr>),
                 errorHandling = Some
                   \<lparr>filesWithHandling = filesWithErrorHandling t,
                    errorHandling_ratio = js_round (errorHandlingRatio * 100)\<rparr>,
                 comments = Some
                   \<lparr>averageDensity = rat_of_int (js_round (avgCommentDensity * 10)) / 10\<rparr>,
                 naming = Some
                   \<lparr>filesWithGoodNaming = totalGoodNaming t,
                    naming_ratio = js_round (namingRatio * 100)\<rparr>\<rparr>,
              error = None\<rparr>)"

section \<open>The maintenance analyzer\<close>

subsection \<open>Dates\<close>

text \<open>
  A \<^verbatim>\<open>Date\<close> holds a time value, the milliseconds since the epoch, or \<^verbatim>\<open>NaN\<close> (an
  invalid date). The operations follow ECMAScript; the local time zone is a fixed offset
  from UTC.
\<close>

datatype js_date = Date int | InvalidDate

definition msPerDay :: int where
  "msPerDay = 86400000"

definition TimeClip :: "int \<Rightarrow> js_date" where
  "TimeClip t = (if abs t > 8640000000000000 then InvalidDate else Date t)"

definition Day :: "int \<Rightarrow> int" where
  "Day t = t div msPerDay"

definition TimeWithinDay :: "int \<Rightarrow> int" where
  "TimeWithinDay t = t mod msPerDay"

text \<open>The day number of the first day of month \<open>m\<close> (0 to 11) of year \<open>y\<close>.\<close>

definition days_from_civil :: "int \<Rightarrow> int \<Rightarrow> int" where
  "days_from_civil y m =
     (let y1 = (if m < 2 then y - 1 else y);
          era = y1 div 400;
          yoe = y1 - era * 400;
          mp = (if m < 2 then m + 10 else m - 2);
          doy = (153 * mp + 2) div 5;
          doe = yoe * 365 + yoe div 4 - yoe div 100 + doy
      in era * 146097 + doe - 719468)"

text \<open>Year, month (0 to 11) and day of the month (from 1) of a day number.\<close>

definition civil_from_days :: "int \<Rightarrow> int \<times> int \<times> int" where
  "civil_from_days z =
     (let z1 = z + 719468;
          era = z1 div 146097;
          doe = z1 - era * 146097;
          yoe = (doe - doe div 1460 + doe div 36524 - doe div 146096) div 365;
          doy = doe - (365 * yoe + yoe div 4 - yoe div 100);
          mp = (5 * doy + 2) div 153;
          d = doy - (153 * mp + 2) div 5 + 1;
          m = (if mp < 10 then mp + 2 else mp - 10);
          y = yoe + era * 400
      in (if m < 2 then y + 1 else y, m, d))"

definition YearFromTime :: "int \<Rightarrow> int" where
  "YearFromTime t = fst (civil_from_days (Day t))"

definition MonthFromTime :: "int \<Rightarrow> int" where
  "MonthFromTime t = fst (snd (civil_from_days (Day t)))"

definition DateFromTime :: "int \<Rightarrow> int" where
  "DateFromTime t = snd (snd (civil_from_days (Day t)))"

definition MakeDay :: "int \<Rightarrow> int \<Rightarrow> int \<Rightarrow> int" where
  "MakeDay year month dt = days_from_civil (year + month div 12) (month mod 12) + dt - 1"

definition MakeDate :: "int \<Rightarrow> int \<Rightarrow> int" where
  "MakeDate day time = day * msPerDay + time"

definition getMonth :: "world \<Rightarrow> int \<Rightarrow> int" where
  "getMonth w t = MonthFromTime (t + tz_offset w)"

definition setMonth :: "world \<Rightarrow> int \<Rightarrow> int \<Rightarrow> js_date" where
  "setMonth w t month =
     (let lt = t + tz_offset w;
          newDate = MakeDate (MakeDay (YearFromTime lt) month (DateFromTime lt)) (TimeWithinDay lt)
      in TimeClip (newDate - tz_offset w))"

text \<open>\<^verbatim>\<open>a > b\<close> on a valid date \<open>a\<close> and a date \<open>b\<close>: false when \<open>b\<close> is invalid.\<close>

definition later_than :: "int \<Rightarrow> js_date \<Rightarrow> bool" where
  "later_than t d = (case d of Date s \<Rightarrow> t > s | InvalidDate \<Rightarrow> False)"

subsection \<open>Strings read from subprocesses and files\<close>

definition is_space :: "char \<Rightarrow> bool" where
  "is_space c = (c \<in> set [char_of (9::nat), char_of (10::nat), char_of (11::nat),
                           char_of (12::nat), char_of (13::nat), char_of (32::nat)])"

definition trim :: "string \<Rightarrow> string" where
  "trim s = rev (dropWhile is_space (rev (dropWhile is_space s)))"

definition is_digit :: "char \<Rightarrow> bool" where
  "is_digit c = (48 \<le> (of_char c :: nat) \<and> (of_char c :: nat) \<le> 57)"

definition digits_value :: "string \<Rightarrow> int" where
  "digits_value ds = foldl (\<lambda>a c. 10 * a + (int (of_char c) - 48)) 0 ds"

text \<open>
  \<^verbatim>\<open>parseInt(s, 10)\<close>: leading white space, a sign, then the longest run of decimal
  digits; \<^verbatim>\<open>NaN\<close> (\<open>None\<close>) when there is no digit.
\<close>

definition parseInt :: "string \<Rightarrow> int option" where
  "parseInt s =
     (let s1 = dropWhile is_space s;
          neg = (s1 \<noteq> [] \<and> hd s1 = CHR ''-'');
          s2 = (if s1 \<noteq> [] \<and> (hd s1 = CHR ''-'' \<or> hd s1 = CHR ''+'') then tl s1 else s1);
          ds = takeWhile is_digit s2
      in if ds = [] then None
         else Some (if neg then - digits_value ds else digits_value ds))"

subsection \<open>The analyzer\<close>

definition isGitRepo :: "world \<Rightarrow> string \<Rightarrow> bool" where
  "isGitRepo w skillPath = access_git w skillPath"

text \<open>
  The last commit date: \<^verbatim>\<open>null\<close> (\<open>None\<close>) when \<^verbatim>\<open>git log\<close> fails, else the
  \<^verbatim>\<open>Date\<close> made from the printed number of seconds, invalid when the output is no
  number or the instant is out of range.
\<close>

definition getLastCommitDate :: "world \<Rightarrow> string \<Rightarrow> js_date option" where
  "getLastCommitDate w skillPath =
     (case exec_git_log w skillPath of
        GitLogFailed \<Rightarrow> None
      | GitLogStdout out \<Rightarrow>
          (case parseInt (trim out) of
             None \<Rightarrow> Some InvalidDate
           | Some timestamp \<Rightarrow> Some (TimeClip (timestamp * 1000))))"

record version_info =
  hasVersion :: bool
  vi_version :: "string option"
  vi_source :: "string option"

definition changelogFiles :: "string list" where
  "changelogFiles = [''CHANGELOG.md'', ''CHANGELOG'', ''HISTORY.md'', ''RELEASES.md'']"

definition checkVersionInfo :: "world \<Rightarrow> string \<Rightarrow> version_info" where
  "checkVersionInfo w skillPath =
     (case package_json_version w skillPath of
        Some v \<Rightarrow> \<lparr>hasVersion = True, vi_version = Some v, vi_source = Some ''package.json''\<rparr>
      | None \<Rightarrow>
          (case filter (access_changelog w skillPath) changelogFiles of
             file # rest \<Rightarrow> \<lparr>hasVersion = True, vi_version = None, vi_source = Some file\<rparr>
           | [] \<Rightarrow>
               (case read_VERSION w skillPath of
                  Some v \<Rightarrow>
                    \<lparr>hasVersion = True, vi_version = Some (trim v), vi_source = Some ''VERSION''\<rparr>
                | None \<Rightarrow> \<lparr>hasVersion = False, vi_version = None, vi_source = None\<rparr>)))"

text \<open>
  The recency block: the points and the \<^verbatim>\<open>lastCommit\<close> entry. On an invalid date the
  call \<^verbatim>\<open>lastCommit.toISOString()\<close> throws a \<open>RangeError\<close>, which rejects the
  analyzer's promise.
\<close>

definition recency :: "world \<Rightarrow> js_date option \<Rightarrow> js_error + int \<times> lastCommit_details" where
  "recency w lc =
     (case lc of
        None \<Rightarrow> Inr (0, NoLastCommit)
      | Some InvalidDate \<Rightarrow> Inl (RangeError ''Invalid time value'')
      | Some (Date t) \<Rightarrow>
          (let sixMonthsAgo = setMonth w (clock_six_months w) (getMonth w (clock_six_months w) - 6);
               recent = later_than t sixMonthsAgo;
               daysSinceCommit = (clock_days w - t) div (1000 * 60 * 60 * 24)
           in Inr (if recent then 10 else 0, LastCommit t daysSinceCommit recent)))"

definition analyzeMaintenance ::
  "world \<Rightarrow> string \<Rightarrow> js_error + maintenance_details component" where
  "analyzeMaintenance w skillPath =
     (let isGit = isGitRepo w skillPath;
          lc = (if isGit then getLastCommitDate w skillPath else None);
          versionInfo = checkVersionInfo w skillPath
      in case recency w lc of
           Inl err \<Rightarrow> Inl err
         | Inr (pts, entry) \<Rightarrow>
             Inr \<lparr>score = (if isGit then 5 else 0) + pts + (if hasVersion versionInfo then 5 else 0),
                  cmax = 20,
                  details = Some
                    \<lparr>git = Some \<lparr>git_exists = isGit\<rparr>,
                     lastCommit = Some entry,
                     version = Some
                       (if hasVersion versionInfo
                        then \<lparr>version_exists = True, version_string = vi_version versionInfo,
                              version_source = vi_source versionInfo\<rparr>
                        else \<lparr>version_exists = False, version_string = None,
                              version_source = None\<rparr>)\<rparr>,
                  error = None\<rparr>)"

section \<open>scoreSkill and the command line\<close>

text \<open>\<^verbatim>\<open>path.basename\<close>: the last segment of the path, trailing separators dropped.\<close>

definition basename :: "string \<Rightarrow> string" where
  "basename p = rev (takeWhile (\<lambda>c. c \<noteq> CHR ''/'') (dropWhile (\<lambda>c. c = CHR ''/'') (rev p)))"

definition scoreSkill :: "world \<Rightarrow> string \<Rightarrow> string option \<Rightarrow> js_error + score_result" where
  "scoreSkill w skillPath skillName =
     (let name = or_str skillName (basename skillPath)
      in merge_results name skillPath (clock_start w) (clock_end w) (clock_scanned w)
           (catch_default 40 (analyzeSecurity w name skillPath))
           (catch_default 20 (analyzeDocs w skillPath))
           (catch_default 20 (analyzeCode w skillPath))
           (catch_default 20 (analyzeMaintenance w skillPath)))"

definition exitCodes :: "(string \<times> int) list" where
  "exitCodes = [(''A'', 0), (''B'', 0), (''C'', 0), (''D'', 1), (''F'', 1)]"

text \<open>The value of \<^verbatim>\<open>--name\<close>: the argument after its first occurrence, if not empty.\<close>

fun name_option :: "string list \<Rightarrow> string option" where
  "name_option [] = None"
| "name_option (a # rest) =
     (if a = ''--name''
      then (case rest of [] \<Rightarrow> None | v # others \<Rightarrow> if v = [] then None else Some v)
      else name_option rest)"

text \<open>
  \<^verbatim>\<open>main\<close>, as the status the process exits with. The expression
  \<^verbatim>\<open>exitCodes[result.grade] || 1\<close> is the argument of \<^verbatim>\<open>process.exit\<close> after a scan
  that returned; a scan that threw exits with 1.
\<close>

definition exit_status :: "string \<Rightarrow> int" where
  "exit_status g = or_num (map_of exitCodes g) 1"

definition main :: "world \<Rightarrow> string list \<Rightarrow> int" where
  "main w args =
     (if args = [] \<or> ''--help'' \<in> set args \<or> ''-h'' \<in> set args then 0
      else (case scoreSkill w (resolve w (hd args)) (name_option args) of
              Inl err \<Rightarrow> 1
            | Inr result \<Rightarrow> exit_status (grade result)))"

section \<open>Example scans\<close>

text \<open>
  A scan with the scores and the recommendations of the one the usage guide prints for
  the \<^verbatim>\<open>weather\<close> skill (53 of 100): a benign reputation and no scanner installed
  (30 of 40), a \<^verbatim>\<open>SKILL.md\<close> of 600 characters with a usage section and no
  \<^verbatim>\<open>README.md\<close> (13 of 20), no code file (10 of 20), no git directory and no
  version file (0 of 20). The clock reads 2026-11-02T00:00:00Z.
\<close>

definition weather_world :: world where
  "weather_world =
     \<lparr>fetch_clawdex = (\<lambda>name. Body (Some ''benign'')),
      exec_scanner = (\<lambda>p. ExecRejected ''Command failed''),
      probe_skillMd = (\<lambda>p. Content (replicate 600 (CHR ''a''))),
      probe_readmeMd = (\<lambda>p. Missing),
      examples_patterns = (\<lambda>s. True),
      references_patterns = (\<lambda>s. False),
      getAllFiles = (\<lambda>p. []),
      findHardcodedSecrets = (\<lambda>s. []),
      hasErrorHandling = (\<lambda>s. False),
      calculateCommentDensity = (\<lambda>s. 0),
      followsNamingConventions = (\<lambda>s. False),
      access_git = (\<lambda>p. False),
      exec_git_log = (\<lambda>p. GitLogFailed),
      package_json_version = (\<lambda>p. None),
      access_changelog = (\<lambda>p f. False),
      read_VERSION = (\<lambda>p. None),
      resolve = (\<lambda>p. p),
      tz_offset = 0,
      clock_start = 1793577600000,
      clock_six_months = 1793577600000,
      clock_days = 1793577600000,
      clock_end = 1793577601531,
      clock_scanned = 1793577601531\<rparr>"

text \<open>
  The same skill as a git repository whose last commit records a committer time of
  9999999999999 seconds, beyond the range of \<^verbatim>\<open>Date\<close>; git prints the number and
  a line feed.
\<close>

definition far_future_world :: world where
  "far_future_world =
     weather_world\<lparr>access_git := (\<lambda>p. True),
                    exec_git_log := (\<lambda>p. GitLogStdout (''9999999999999'' @ [char_of (10::nat)]))\<rparr>"

text \<open>The same skill, last committed on 2026-05-03T00:00:00Z, 183 days before the scan.\<close>

definition stale_world :: world where
  "stale_world =
     weather_world\<lparr>access_git := (\<lambda>p. True),
                    exec_git_log := (\<lambda>p. GitLogStdout (''1777766400'' @ [char_of (10::nat)]))\<rparr>"

text \<open>A skill that earns every point: 40 + 20 + 20 + 20.\<close>

definition perfect_world :: world where
  "perfect_world =
     weather_world\<lparr>exec_scanner := (\<lambda>p. Scanned (Some [])),
                    probe_readmeMd := (\<lambda>p. Content (replicate 400 (CHR ''b''))),
                    references_patterns := (\<lambda>s. True),
                    getAllFiles := (\<lambda>p. [\<lparr>file_path = ''/skills/weather/index.js'',
                                           file_text = Some ''// entry''\<rparr>]),
                    hasErrorHandling := (\<lambda>s. True),
                    calculateCommentDensity := (\<lambda>s. 100),
                    followsNamingConventions := (\<lambda>s. True),
                    access_git := (\<lambda>p. True),
                    exec_git_log := (\<lambda>p. GitLogStdout (''1793491200'' @ [char_of (10::nat)])),
                    package_json_version := (\<lambda>p. Some ''1.0.0'')\<rparr>"

text \<open>The weather scan with the network down: the reputation request rejects.\<close>

definition network_down_world :: world where
  "network_down_world =
     weather_world\<lparr>fetch_clawdex := (\<lambda>name. FetchRejected ''fetch failed'')\<rparr>"

text \<open>
  The weather scan with a scanner that reports four findings: one critical, one high,
  one without a severity and one of a severity that is no key of the counters.
\<close>

definition findings_world :: world where
  "findings_world =
     weather_world\<lparr>exec_scanner := (\<lambda>p. Scanned (Some
       [\<lparr>severity = Some ''CRITICAL''\<rparr>, \<lparr>severity = Some ''High''\<rparr>,
        \<lparr>severity = None\<rparr>, \<lparr>severity = Some ''info''\<rparr>]))\<rparr>"

section \<open>Properties\<close>

subsection \<open>Scores of the analyzers\<close>

lemma catch_default_score:
  "score (catch_default mx p) = (case p of Inl e \<Rightarrow> 0 | Inr c \<Rightarrow> score c)"
  by (simp add: catch_default_def split: sum.splits)

lemma analyzeSecurity_score:
  "\<exists>c. analyzeSecurity w n p = Inr c \<and> 0 \<le> score c \<and> score c \<le> 40 \<and> details c \<noteq> None"
  by (auto simp add: analyzeSecurity_def Let_def checkClawdex_def runCiscoScanner_def or_num_def
        scoreMap_def or_str_def
      split: fetch_outcome.splits scanner_outcome.splits option.splits)

lemma analyzeDocs_score:
  "\<exists>c. analyzeDocs w p = Inr c \<and> 0 \<le> score c \<and> score c \<le> 20 \<and> details c \<noteq> None"
  by (simp add: analyzeDocs_def Let_def doc_entry_def split: option.splits)

lemma analyzeCode_score:
  "\<exists>c. analyzeCode w p = Inr c \<and> 0 \<le> score c \<and> score c \<le> 20 \<and> details c \<noteq> None"
  by (simp add: analyzeCode_def Let_def)

lemma analyzeMaintenance_score:
  "analyzeMaintenance w p = Inr c \<Longrightarrow> 0 \<le> score c \<and> score c \<le> 20 \<and> details c \<noteq> None"
  by (auto simp add: analyzeMaintenance_def Let_def recency_def
           split: sum.splits option.splits js_date.splits prod.splits if_splits)

lemma settled_scores:
  "0 \<le> score (catch_default 20 (analyzeDocs w p))"
  "0 \<le> score (catch_default 20 (analyzeCode w p))"
  "0 \<le> score (catch_default 20 (analyzeMaintenance w p))"
proof -
  obtain d where "analyzeDocs w p = Inr d" "0 \<le> score d"
    using analyzeDocs_score by blast
  then show "0 \<le> score (catch_default 20 (analyzeDocs w p))"
    by (simp add: catch_default_score)
  obtain c where "analyzeCode w p = Inr c" "0 \<le> score c"
    using analyzeCode_score by blast
  then show "0 \<le> score (catch_default 20 (analyzeCode w p))"
    by (simp add: catch_default_score)
  show "0 \<le> score (catch_default 20 (analyzeMaintenance w p))"
    using analyzeMaintenance_score [of w p]
    by (cases "analyzeMaintenance w p") (simp_all add: catch_default_score)
qed

subsection \<open>What a returned scan contains\<close>

lemma scoreSkill_Inr:
  assumes "scoreSkill w p sn = Inr r"
  shows "result_breakdown r =
           \<lparr>security = catch_default 40 (analyzeSecurity w (or_str sn (basename p)) p),
            documentation = catch_default 20 (analyzeDocs w p),
            codeQuality = catch_default 20 (analyzeCode w p),
            maintenance = catch_default 20 (analyzeMaintenance w p)\<rparr>"
    and "overallScore r =
           score (catch_default 40 (analyzeSecurity w (or_str sn (basename p)) p))
         + score (catch_default 20 (analyzeDocs w p))
         + score (catch_default 20 (analyzeCode w p))
         + score (catch_default 20 (analyzeMaintenance w p))"
    and "generateRecommendations (result_breakdown r) = Inr (recommendations r)"
  using assms unfolding scoreSkill_def merge_results_def Let_def
  by (auto split: sum.splits)

lemma generateRecommendations_Inr:
  assumes "generateRecommendations b = Inr recs"
  obtains sec doc code mnt where
    "details (security b) = Some sec" "details (documentation b) = Some doc"
    "details (codeQuality b) = Some code" "details (maintenance b) = Some mnt"
    "recs = security_recommendations sec @ documentation_recommendations doc @
            code_recommendations code @ maintenance_recommendations mnt"
  using assms unfolding generateRecommendations_def
  by (auto split: option.splits)

lemma generateRecommendations_None:
  assumes "details (security b) = None \<or> details (documentation b) = None
         \<or> details (codeQuality b) = None \<or> details (maintenance b) = None"
  shows "\<exists>m. generateRecommendations b = Inl (TypeError m)"
  using assms unfolding generateRecommendations_def
  by (auto split: option.splits)

lemma merge_results_without_details:
  assumes "details sec = None \<or> details doc = None \<or> details code = None \<or> details mnt = None"
  shows "\<exists>m. merge_results name skillPath t0 t1 t2 sec doc code mnt = Inl (TypeError m)"
proof -
  let ?b = "\<lparr>security = sec, documentation = doc, codeQuality = code, maintenance = mnt\<rparr>"
  have "details (security ?b) = None \<or> details (documentation ?b) = None
      \<or> details (codeQuality ?b) = None \<or> details (maintenance ?b) = None"
    using assms by simp
  then obtain m where "generateRecommendations ?b = Inl (TypeError m)"
    using generateRecommendations_None by blast
  then show ?thesis
    by (simp add: merge_results_def Let_def)
qed

lemma merge_results_with_details:
  assumes "details sec \<noteq> None" and "details doc \<noteq> None"
    and "details code \<noteq> None" and "details mnt \<noteq> None"
  shows "\<exists>r. merge_results name skillPath t0 t1 t2 sec doc code mnt = Inr r"
  using assms
  by (auto simp add: merge_results_def Let_def generateRecommendations_def)

subsection \<open>When a scan fails\<close>

text \<open>
  The maintenance analyzer is the only one that can reject, and it does so exactly when
  the directory is a git repository whose last commit date is read as an invalid date.
  A scan fails exactly when the maintenance analyzer rejects.
\<close>

lemma analyzeMaintenance_rejects_iff:
  "isl (analyzeMaintenance w p) \<longleftrightarrow>
     access_git w p \<and> getLastCommitDate w p = Some InvalidDate"
  by (auto simp add: analyzeMaintenance_def Let_def recency_def isGitRepo_def
      split: sum.splits option.splits js_date.splits prod.splits if_splits)

lemma scoreSkill_fails_iff:
  "isl (scoreSkill w p sn) \<longleftrightarrow> isl (analyzeMaintenance w p)"
proof -
  obtain s where s: "analyzeSecurity w (or_str sn (basename p)) p = Inr s" "details s \<noteq> None"
    using analyzeSecurity_score by blast
  obtain d where d: "analyzeDocs w p = Inr d" "details d \<noteq> None"
    using analyzeDocs_score by blast
  obtain c where c: "analyzeCode w p = Inr c" "details c \<noteq> None"
    using analyzeCode_score by blast
  show ?thesis
  proof (cases "analyzeMaintenance w p")
    case (Inl e)
    then have "details (catch_default 20 (analyzeMaintenance w p)) = None"
      by (simp add: catch_default_def)
    then have "\<exists>m. scoreSkill w p sn = Inl (TypeError m)"
      unfolding scoreSkill_def Let_def
      by (intro merge_results_without_details) simp
    with Inl show ?thesis by auto
  next
    case (Inr m)
    then have "details m \<noteq> None"
      using analyzeMaintenance_score by blast
    with Inr s d c show ?thesis
      by (auto simp add: scoreSkill_def Let_def merge_results_def catch_default_def
            generateRecommendations_def split: sum.splits)
  qed
qed

subsection \<open>The recommendation list\<close>

lemmas msg_defs =
  msg_malicious_def msg_critical_def msg_high_def msg_add_skillMd_def msg_expand_skillMd_def
  msg_examples_def msg_references_def msg_secrets_def msg_errorHandling_def msg_comments_def
  msg_git_def msg_update_def msg_version_def warning_sign_def

lemma priority_order_distinct: "distinct (priority_order sec doc code mnt)"
  by (simp add: priority_order_def msg_defs)

lemma security_recommendations_length: "length (security_recommendations sec) \<le> 3"
  by (simp add: security_recommendations_def)

lemma documentation_recommendations_length: "length (documentation_recommendations doc) \<le> 3"
  by (simp add: documentation_recommendations_def)

lemma code_recommendations_length: "length (code_recommendations code) \<le> 3"
  by (simp add: code_recommendations_def split: option.splits)

lemma maintenance_recommendations_length:
  assumes "analyzeMaintenance w p = Inr c" and "details c = Some mnt"
  shows "length (maintenance_recommendations mnt) \<le> 2"
  using assms
  by (auto simp add: analyzeMaintenance_def Let_def recency_def maintenance_recommendations_def
        falsy_def days_ago_def isGitRepo_def
      split: sum.splits option.splits js_date.splits prod.splits if_splits)

lemma scoreSkill_recommendations_length:
  assumes "scoreSkill w p sn = Inr r"
  shows "length (recommendations r) \<le> 11"
proof -
  from scoreSkill_Inr(3) [OF assms] obtain sec doc code mnt where
      m: "details (maintenance (result_breakdown r)) = Some mnt"
    and recs: "recommendations r = security_recommendations sec @ documentation_recommendations doc @
            code_recommendations code @ maintenance_recommendations mnt"
    by (rule generateRecommendations_Inr)
  have "maintenance (result_breakdown r) = catch_default 20 (analyzeMaintenance w p)"
    using scoreSkill_Inr(1) [OF assms] by simp
  with m obtain c where "analyzeMaintenance w p = Inr c" "details c = Some mnt"
    by (cases "analyzeMaintenance w p") (auto simp add: catch_default_def)
  then have "length (maintenance_recommendations mnt) \<le> 2"
    by (rule maintenance_recommendations_length)
  then show ?thesis
    using recs security_recommendations_length [of sec]
      documentation_recommendations_length [of doc] code_recommendations_length [of code]
    by simp
qed

lemma recommendations_in_priority_order:
  "subseq (security_recommendations sec @ documentation_recommendations doc @
           code_recommendations code @ maintenance_recommendations mnt)
          (priority_order sec doc code mnt)"
proof -
  have 1: "subseq (security_recommendations sec)
             [msg_malicious, msg_critical (critical (issues (cisco sec))),
              msg_high (high (issues (cisco sec)))]"
    by (simp add: security_recommendations_def)
  have 2: "subseq (documentation_recommendations doc)
             [msg_add_skillMd, msg_expand_skillMd, msg_examples, msg_references]"
    by (simp add: documentation_recommendations_def)
  have 3: "subseq (code_recommendations code)
             [msg_secrets (case secrets_found code of None \<Rightarrow> 0 | Some n \<Rightarrow> n),
              msg_errorHandling, msg_comments]"
    by (simp add: code_recommendations_def split: option.splits)
  have 4: "subseq (maintenance_recommendations mnt)
             [msg_git, msg_update (case days_ago mnt of None \<Rightarrow> 0 | Some n \<Rightarrow> n), msg_version]"
    by (simp add: maintenance_recommendations_def msg_defs split: option.splits)
  have "subseq (security_recommendations sec @ documentation_recommendations doc @
           code_recommendations code @ maintenance_recommendations mnt)
         ([msg_malicious, msg_critical (critical (issues (cisco sec))),
              msg_high (high (issues (cisco sec)))] @
          [msg_add_skillMd, msg_expand_skillMd, msg_examples, msg_references] @
          [msg_secrets (case secrets_found code of None \<Rightarrow> 0 | Some n \<Rightarrow> n),
              msg_errorHandling, msg_comments] @
          [msg_git, msg_update (case days_ago mnt of None \<Rightarrow> 0 | Some n \<Rightarrow> n), msg_version])"
    by (intro list_emb_append_mono 1 2 3 4)
  then show ?thesis by (simp add: priority_order_def)
qed


lemma add_skillMd_emitted_iff:
  "msg_add_skillMd \<in> set (security_recommendations sec @ documentation_recommendations doc @
                           code_recommendations code @ maintenance_recommendations mnt)
   \<longleftrightarrow> falsy (map_option file_exists (skillMd doc))"
  by (simp add: security_recommendations_def documentation_recommendations_def
        code_recommendations_def maintenance_recommendations_def msg_defs
      split: option.splits)

lemma expand_skillMd_emitted_iff:
  "msg_expand_skillMd \<in> set (security_recommendations sec @ documentation_recommendations doc @
                           code_recommendations code @ maintenance_recommendations mnt)
   \<longleftrightarrow> \<not> falsy (map_option file_exists (skillMd doc))
       \<and> falsy (Option.bind (skillMd doc) sufficient)"
  by (simp add: security_recommendations_def documentation_recommendations_def
        code_recommendations_def maintenance_recommendations_def msg_defs
      split: option.splits)

lemma scoreSkill_documentation:
  assumes "scoreSkill w p sn = Inr r"
  obtains c doc sec code mnt where "analyzeDocs w p = Inr c" "details c = Some doc"
    "recommendations r = security_recommendations sec @ documentation_recommendations doc @
            code_recommendations code @ maintenance_recommendations mnt"
proof -
  obtain c where c: "analyzeDocs w p = Inr c"
    using analyzeDocs_score by blast
  then have doc: "documentation (result_breakdown r) = c"
    using scoreSkill_Inr(1) [OF assms] by (simp add: catch_default_def)
  from scoreSkill_Inr(3) [OF assms] obtain sec d code mnt where
    "details (documentation (result_breakdown r)) = Some d"
    "recommendations r = security_recommendations sec @ documentation_recommendations d @
            code_recommendations code @ maintenance_recommendations mnt"
    by (rule generateRecommendations_Inr)
  with c doc that show thesis by simp
qed

lemma add_only_when_skillMd_missing:
  assumes "probe_skillMd w p = Missing" and "scoreSkill w p sn = Inr r"
  shows "msg_add_skillMd \<in> set (recommendations r) \<and> msg_expand_skillMd \<notin> set (recommendations r)"
proof -
  from assms(2) obtain c doc sec code mnt where c: "analyzeDocs w p = Inr c" "details c = Some doc"
    and recs: "recommendations r = security_recommendations sec @ documentation_recommendations doc @
            code_recommendations code @ maintenance_recommendations mnt"
    by (rule scoreSkill_documentation)
  have "skillMd doc = Some \<lparr>file_exists = False, file_length = 0, sufficient = Some False\<rparr>"
    using c assms(1)
    by (auto simp add: analyzeDocs_def Let_def doc_entry_def fileExists_def readFileSafe_def)
  then show ?thesis
    unfolding recs add_skillMd_emitted_iff expand_skillMd_emitted_iff
    by (simp add: falsy_def)
qed

lemma expand_only_when_skillMd_short:
  assumes "probe_skillMd w p = Content s" and "length s \<le> 500" and "scoreSkill w p sn = Inr r"
  shows "msg_expand_skillMd \<in> set (recommendations r) \<and> msg_add_skillMd \<notin> set (recommendations r)"
proof -
  from assms(3) obtain c doc sec code mnt where c: "analyzeDocs w p = Inr c" "details c = Some doc"
    and recs: "recommendations r = security_recommendations sec @ documentation_recommendations doc @
            code_recommendations code @ maintenance_recommendations mnt"
    by (rule scoreSkill_documentation)
  have "skillMd doc = Some \<lparr>file_exists = True, file_length = length s, sufficient = Some False\<rparr>"
    using c assms(1,2)
    by (auto simp add: analyzeDocs_def Let_def doc_entry_def fileExists_def readFileSafe_def)
  then show ?thesis
    unfolding recs add_skillMd_emitted_iff expand_skillMd_emitted_iff
    by (simp add: falsy_def)
qed

subsection \<open>Counting the findings\<close>

lemma critical_foldl_count_finding:
  "critical (foldl count_finding iss fs) =
     critical iss + length (filter (\<lambda>f. toLowerCase (or_str (severity f) ''low'') = ''critical'') fs)"
  by (induction fs arbitrary: iss) (simp_all add: count_finding_def Let_def)

lemma high_foldl_count_finding:
  "high (foldl count_finding iss fs) =
     high iss + length (filter (\<lambda>f. toLowerCase (or_str (severity f) ''low'') = ''high'') fs)"
  by (induction fs arbitrary: iss) (simp_all add: count_finding_def Let_def)

lemma medium_foldl_count_finding:
  "medium (foldl count_finding iss fs) =
     medium iss + length (filter (\<lambda>f. toLowerCase (or_str (severity f) ''low'') = ''medium'') fs)"
  by (induction fs arbitrary: iss) (simp_all add: count_finding_def Let_def)

lemma low_foldl_count_finding:
  "low (foldl count_finding iss fs) =
     low iss + length (filter (\<lambda>f. toLowerCase (or_str (severity f) ''low'') = ''low'') fs)"
  by (induction fs arbitrary: iss) (simp_all add: count_finding_def Let_def)

lemmas foldl_count_finding =
  critical_foldl_count_finding high_foldl_count_finding
  medium_foldl_count_finding low_foldl_count_finding

subsection \<open>The exit status\<close>

lemma exit_status_is_1: "exit_status g = 1"
  unfolding exit_status_def or_num_def exitCodes_def by simp

lemma main_status:
  "main w args = (if args = [] \<or> ''--help'' \<in> set args \<or> ''-h'' \<in> set args then 0 else 1)"
  unfolding main_def by (simp add: exit_status_is_1 split: sum.splits)

subsection \<open>Claims\<close>

text \<open>
  C1. Partial-failure isolation: for every analyzer that rejects, the engine substitutes
  the zero-score component that carries the failure message and leaves the other results
  alone, and the scan should still return a result. The substitution is as claimed, and
  a component that was returned is passed on unchanged; the scan does not return: the
  substitute has no \<^verbatim>\<open>details\<close>, and \<^verbatim>\<open>generateRecommendations\<close> reads a property
  of \<^verbatim>\<open>details\<close> of every component, so the scan ends in a \<open>TypeError\<close> whichever
  analyzer rejected.
\<close>

theorem rejected_analyzer_aborts_scan:
  assumes "p1 = Inl e \<or> p2 = Inl e \<or> p3 = Inl e \<or> p4 = Inl e"
  shows "catch_default mx (Inl e) = \<lparr>score = 0, cmax = mx, details = None, error = Some (message e)\<rparr>
       \<and> catch_default mx (Inr c) = c
       \<and> (\<exists>m. merge_results name skillPath t0 t1 t2
                 (catch_default 40 p1) (catch_default 20 p2)
                 (catch_default 20 p3) (catch_default 20 p4) = Inl (TypeError m))"
proof -
  have "details (catch_default 40 p1) = None \<or> details (catch_default 20 p2) = None
      \<or> details (catch_default 20 p3) = None \<or> details (catch_default 20 p4) = None"
    using assms by (auto simp add: catch_default_def)
  then have "\<exists>m. merge_results name skillPath t0 t1 t2
                 (catch_default 40 p1) (catch_default 20 p2)
                 (catch_default 20 p3) (catch_default 20 p4) = Inl (TypeError m)"
    by (rule merge_results_without_details)
  then show ?thesis
    by (simp add: catch_default_def)
qed

theorem rejected_analyzer_aborts_scan_witness:
  "analyzeMaintenance far_future_world ''/skills/weather'' = Inl (RangeError ''Invalid time value'')
   \<and> (\<exists>m. scoreSkill far_future_world ''/skills/weather'' None = Inl (TypeError m))"
proof -
  have rej: "analyzeMaintenance far_future_world ''/skills/weather''
             = Inl (RangeError ''Invalid time value'')"
    by code_simp
  have "\<exists>m. merge_results N P T0 T1 T2 (catch_default 40 P1) (catch_default 20 P2)
             (catch_default 20 P3)
             (catch_default 20 (analyzeMaintenance far_future_world ''/skills/weather''))
           = Inl (TypeError m)" for N P T0 T1 T2 P1 P2 P3
    using rej rejected_analyzer_aborts_scan
      [of P1 "RangeError ''Invalid time value''" P2 P3
          "analyzeMaintenance far_future_world ''/skills/weather''"]
    by blast
  then show ?thesis
    using rej unfolding scoreSkill_def Let_def by blast
qed

text \<open>
  C2. For every breakdown whose four component scores lie within their category's range
  (security 0 to 40, the other three 0 to 20), the result's overall score is the sum of the
  four component scores, lies between 0 and 100, and the maximum score is 100.
\<close>

theorem merge_results_overall:
  assumes "merge_results name skillPath t0 t1 t2 sec doc code mnt = Inr r"
    and "0 \<le> score sec" and "score sec \<le> 40"
    and "0 \<le> score doc" and "score doc \<le> 20"
    and "0 \<le> score code" and "score code \<le> 20"
    and "0 \<le> score mnt" and "score mnt \<le> 20"
  shows "result_breakdown r =
           \<lparr>security = sec, documentation = doc, codeQuality = code, maintenance = mnt\<rparr>
       \<and> overallScore r = score sec + score doc + score code + score mnt
       \<and> 0 \<le> overallScore r \<and> overallScore r \<le> 100
       \<and> maxScore r = 100"
  using assms unfolding merge_results_def Let_def
  by (auto split: sum.splits)

theorem merge_results_overall_witness:
  "(case scoreSkill weather_world ''/skills/weather'' None of
      Inr r \<Rightarrow> overallScore r = 30 + 13 + 10 + 0 \<and> 0 \<le> overallScore r
              \<and> overallScore r \<le> 100 \<and> maxScore r = 100
    | Inl e \<Rightarrow> False)"
proof -
  let ?sec = "catch_default 40 (analyzeSecurity weather_world ''weather'' ''/skills/weather'')"
  let ?doc = "catch_default 20 (analyzeDocs weather_world ''/skills/weather'')"
  let ?code = "catch_default 20 (analyzeCode weather_world ''/skills/weather'')"
  let ?mnt = "catch_default 20 (analyzeMaintenance weather_world ''/skills/weather'')"
  have scores: "score ?sec = 30" "score ?doc = 13" "score ?code = 10" "score ?mnt = 0"
    by code_simp+
  have "\<not> isl (scoreSkill weather_world ''/skills/weather'' None)"
    by code_simp
  then obtain r where r: "scoreSkill weather_world ''/skills/weather'' None = Inr r"
    by (cases "scoreSkill weather_world ''/skills/weather'' None") auto
  have name: "or_str None (basename ''/skills/weather'') = ''weather''"
    by code_simp
  have m: "merge_results ''weather'' ''/skills/weather'' (clock_start weather_world)
             (clock_end weather_world) (clock_scanned weather_world) ?sec ?doc ?code ?mnt = Inr r"
    using r unfolding scoreSkill_def Let_def name .
  show ?thesis
    using merge_results_overall [OF m] scores r by simp
qed

text \<open>
  C3. The grade function is total and non-overlapping on the integers 0 to 100: every such
  score gets one of the five letters, A exactly from 90, B exactly on 80..89, C exactly on
  70..79, D exactly on 60..69 and F exactly below 60.
\<close>

theorem calculateGrade_thresholds:
  assumes "0 \<le> sc" and "sc \<le> 100"
  shows "calculateGrade sc \<in> {''A'', ''B'', ''C'', ''D'', ''F''}
       \<and> (calculateGrade sc = ''A'' \<longleftrightarrow> 90 \<le> sc)
       \<and> (calculateGrade sc = ''B'' \<longleftrightarrow> 80 \<le> sc \<and> sc < 90)
       \<and> (calculateGrade sc = ''C'' \<longleftrightarrow> 70 \<le> sc \<and> sc < 80)
       \<and> (calculateGrade sc = ''D'' \<longleftrightarrow> 60 \<le> sc \<and> sc < 70)
       \<and> (calculateGrade sc = ''F'' \<longleftrightarrow> sc < 60)"
  by (simp add: calculateGrade_def)

theorem calculateGrade_thresholds_witness:
  "calculateGrade 85 = ''B'' \<and> calculateGrade 85 \<noteq> ''A'' \<and> calculateGrade 85 \<noteq> ''C''
   \<and> calculateGrade 85 \<noteq> ''D'' \<and> calculateGrade 85 \<noteq> ''F''"
  using calculateGrade_thresholds [of 85] by simp

text \<open>
  C4. The primary-doc rule: when \<^verbatim>\<open>SKILL.md\<close> exists with more than 500 characters
  the list should contain neither the "Add SKILL.md" nor the "Expand SKILL.md" string.
  The analyzer's entry for such a file has no \<^verbatim>\<open>sufficient\<close> property, and the
  generator tests \<^verbatim>\<open>!skillMd?.sufficient\<close>: every scan of a \<^verbatim>\<open>SKILL.md\<close> of more
  than 500 characters that returns carries the "Expand SKILL.md" string.
\<close>

theorem expand_emitted_for_sufficient_skillMd:
  assumes "probe_skillMd w p = Content s"
    and "length s > 500"
    and "scoreSkill w p sn = Inr r"
  shows "map_option skillMd (details (documentation (result_breakdown r))) =
           Some (Some \<lparr>file_exists = True, file_length = length s, sufficient = None\<rparr>)
       \<and> msg_expand_skillMd \<in> set (recommendations r)"
proof -
  have s: "s \<noteq> []" using assms(2) by auto
  have d: "\<exists>c dd. analyzeDocs w p = Inr c \<and> details c = Some dd
        \<and> skillMd dd = Some \<lparr>file_exists = True, file_length = length s, sufficient = None\<rparr>"
    using assms(1,2) s
    by (simp add: analyzeDocs_def Let_def doc_entry_def fileExists_def readFileSafe_def)
  then obtain c dd where c: "analyzeDocs w p = Inr c" "details c = Some dd"
      "skillMd dd = Some \<lparr>file_exists = True, file_length = length s, sufficient = None\<rparr>"
    by blast
  have doc: "documentation (result_breakdown r) = c"
    using scoreSkill_Inr(1) [OF assms(3)] c(1) by (simp add: catch_default_def)
  have "msg_expand_skillMd \<in> set (documentation_recommendations dd)"
    using c(3) by (simp add: documentation_recommendations_def falsy_def)
  moreover obtain sec code mnt where
    "recommendations r = security_recommendations sec @ documentation_recommendations dd @
            code_recommendations code @ maintenance_recommendations mnt"
    using scoreSkill_Inr(3) [OF assms(3)] doc c(2)
    by (auto elim!: generateRecommendations_Inr)
  ultimately have "msg_expand_skillMd \<in> set (recommendations r)"
    by simp
  then show ?thesis using doc c(2,3) by simp
qed

theorem expand_emitted_for_sufficient_skillMd_witness:
  "probe_skillMd weather_world ''/skills/weather'' = Content (replicate 600 (CHR ''a''))
   \<and> length (replicate 600 (CHR ''a'')) > 500
   \<and> (case scoreSkill weather_world ''/skills/weather'' None of
         Inr r \<Rightarrow> msg_expand_skillMd \<in> set (recommendations r)
       | Inl e \<Rightarrow> False)"
proof -
  have h1: "probe_skillMd weather_world ''/skills/weather'' = Content (replicate 600 (CHR ''a''))"
    by (simp add: weather_world_def)
  have h2: "length (replicate 600 (CHR ''a'')) > 500"
    by simp
  have "\<not> isl (scoreSkill weather_world ''/skills/weather'' None)"
    by code_simp
  then obtain r where r: "scoreSkill weather_world ''/skills/weather'' None = Inr r"
    by (cases "scoreSkill weather_world ''/skills/weather'' None") auto
  show ?thesis
    using expand_emitted_for_sufficient_skillMd [OF h1 h2 r] h1 r by simp
qed

text \<open>
  C5. The recommendation list should hold at most eleven strings, none for a rule that is
  satisfied, in the fixed order of the rules. The scan of the usage guide has a
  \<^verbatim>\<open>SKILL.md\<close> of 600 characters, which earns the 10 points of the rule, and its list
  opens with the string of that rule, "Expand SKILL.md content (currently < 500
  characters)": the list is the one the usage guide prints.
\<close>

theorem usage_example_recommendations:
  "(case scoreSkill weather_world ''/skills/weather'' None of
      Inr r \<Rightarrow>
        map_option skillMd (details (documentation (result_breakdown r)))
          = Some (Some \<lparr>file_exists = True, file_length = 600, sufficient = None\<rparr>)
      \<and> score (documentation (result_breakdown r)) = 13
      \<and> overallScore r = 53 \<and> grade r = ''F''
      \<and> recommendations r =
          [''Expand SKILL.md content (currently < 500 characters)'',
           ''Add references section with related links/resources'',
           ''Improve error handling coverage in code'',
           ''Add more code comments and documentation'',
           ''Initialize git repository for version control'',
           ''Add version information (package.json, CHANGELOG, or VERSION file)'']
    | Inl e \<Rightarrow> False)"
  by code_simp

text \<open>
  C6. The scan should fail only when the target path cannot be resolved, and no analyzer
  failure should surface as a failure of the scan. For a path that resolves and whose
  files are all readable, the scan of a repository with an out-of-range commit time
  fails: the maintenance analyzer rejects, and the scan ends in a \<open>TypeError\<close>; the
  command line exits with status 1.
\<close>

theorem valid_path_scan_fails:
  "analyzeMaintenance far_future_world ''/skills/weather'' = Inl (RangeError ''Invalid time value'')
   \<and> scoreSkill far_future_world ''/skills/weather'' None
       = Inl (TypeError ''Cannot read properties of undefined (reading 'git')'')
   \<and> main far_future_world [''/skills/weather''] = 1"
  by code_simp

text \<open>
  C7. When the reputation request fails with a network error and the scanner invocation
  fails too, the security analyzer returns a component (it does not reject) whose score
  is 10 + 10 = 20, and the overall score, the sum of the four settled scores, is an
  integer that is not negative; a scan that returns reports that sum.
\<close>

theorem security_fallback_sum:
  assumes "fetch_clawdex w name = FetchRejected m1"
    and "exec_scanner w p = ExecRejected m2"
    and "name = or_str skillName (basename p)"
  shows "(\<exists>c. analyzeSecurity w name p = Inr c \<and> score c = 10 + 10 \<and> cmax c = 40)
       \<and> 0 \<le> score (catch_default 40 (analyzeSecurity w name p))
             + score (catch_default 20 (analyzeDocs w p))
             + score (catch_default 20 (analyzeCode w p))
             + score (catch_default 20 (analyzeMaintenance w p))
       \<and> (\<forall>r. scoreSkill w p skillName = Inr r \<longrightarrow>
             score (security (result_breakdown r)) = 20
           \<and> overallScore r =
               20 + score (documentation (result_breakdown r))
                  + score (codeQuality (result_breakdown r))
                  + score (maintenance (result_breakdown r))
           \<and> 0 \<le> overallScore r)"
proof -
  have sec: "\<exists>c. analyzeSecurity w name p = Inr c \<and> score c = 10 + 10 \<and> cmax c = 40"
    using assms(1,2) by (simp add: analyzeSecurity_def Let_def checkClawdex_def runCiscoScanner_def)
  then have s20: "score (catch_default 40 (analyzeSecurity w name p)) = 20"
    by (auto simp add: catch_default_score)
  have nonneg: "0 \<le> score (catch_default 40 (analyzeSecurity w name p))
             + score (catch_default 20 (analyzeDocs w p))
             + score (catch_default 20 (analyzeCode w p))
             + score (catch_default 20 (analyzeMaintenance w p))"
    using s20 settled_scores [of w p] by linarith
  have "score (security (result_breakdown r)) = 20
           \<and> overallScore r =
               20 + score (documentation (result_breakdown r))
                  + score (codeQuality (result_breakdown r))
                  + score (maintenance (result_breakdown r))
           \<and> 0 \<le> overallScore r" if "scoreSkill w p skillName = Inr r" for r
    using scoreSkill_Inr(1,2) [OF that] s20 nonneg assms(3) by simp
  with sec nonneg show ?thesis by blast
qed

theorem security_fallback_sum_witness:
  "fetch_clawdex network_down_world ''weather'' = FetchRejected ''fetch failed''
   \<and> exec_scanner network_down_world ''/skills/weather'' = ExecRejected ''Command failed''
   \<and> (case scoreSkill network_down_world ''/skills/weather'' None of
         Inr r \<Rightarrow> score (security (result_breakdown r)) = 20 \<and> overallScore r = 43
       | Inl e \<Rightarrow> False)"
proof -
  have h1: "fetch_clawdex network_down_world ''weather'' = FetchRejected ''fetch failed''"
    by code_simp
  have h2: "exec_scanner network_down_world ''/skills/weather'' = ExecRejected ''Command failed''"
    by code_simp
  have h3: "''weather'' = or_str None (basename ''/skills/weather'')"
    by code_simp
  have "\<not> isl (scoreSkill network_down_world ''/skills/weather'' None)"
    by code_simp
  then obtain r where r: "scoreSkill network_down_world ''/skills/weather'' None = Inr r"
    by (cases "scoreSkill network_down_world ''/skills/weather'' None") auto
  have others: "score (catch_default 20 (analyzeDocs network_down_world ''/skills/weather'')) = 13"
       "score (catch_default 20 (analyzeCode network_down_world ''/skills/weather'')) = 10"
       "score (catch_default 20 (analyzeMaintenance network_down_world ''/skills/weather'')) = 0"
    by code_simp+
  have "score (security (result_breakdown r)) = 20 \<and> overallScore r = 43"
    using security_fallback_sum [OF h1 h2 h3] r scoreSkill_Inr(1) [OF r] others by simp
  then show ?thesis using h1 h2 r by simp
qed

text \<open>
  C8. For findings of which \<open>c\<close> count as critical, \<open>h\<close> as high, \<open>m\<close> as medium and
  \<open>l\<close> as low (the severity is compared in lower case, and a finding without one counts
  as low), the static-scan score is \<open>max 0 (20 - 10 c - 5 h - 2 m - l)\<close>; when the
  scanner executable is missing or exits with a non-zero status, the score is 10.
\<close>

theorem runCiscoScanner_score:
  "(exec_scanner w p = Scanned (Some fs) \<longrightarrow>
      sr_score (runCiscoScanner w p) =
        max 0 (20 - 10 * int (length (filter (\<lambda>f. toLowerCase (or_str (severity f) ''low'') = ''critical'') fs))
                  - 5 * int (length (filter (\<lambda>f. toLowerCase (or_str (severity f) ''low'') = ''high'') fs))
                  - 2 * int (length (filter (\<lambda>f. toLowerCase (or_str (severity f) ''low'') = ''medium'') fs))
                  - 1 * int (length (filter (\<lambda>f. toLowerCase (or_str (severity f) ''low'') = ''low'') fs))))
   \<and> (exec_scanner w p = ExecRejected msg \<longrightarrow> sr_score (runCiscoScanner w p) = 10)"
  by (simp add: runCiscoScanner_def Let_def foldl_count_finding no_issues_def mult.commute)

theorem runCiscoScanner_score_witness:
  "sr_score (runCiscoScanner findings_world ''/skills/weather'') = 20 - 10 - 5 - 1
   \<and> sr_score (runCiscoScanner weather_world ''/skills/weather'') = 10"
proof -
  let ?fs = "[\<lparr>severity = Some ''CRITICAL''\<rparr>, \<lparr>severity = Some ''High''\<rparr>,
              \<lparr>severity = None\<rparr>, \<lparr>severity = Some ''info''\<rparr>]"
  have h1: "exec_scanner findings_world ''/skills/weather'' = Scanned (Some ?fs)"
    by code_simp
  have h2: "exec_scanner weather_world ''/skills/weather'' = ExecRejected ''Command failed''"
    by code_simp
  have c: "length (filter (\<lambda>f. toLowerCase (or_str (severity f) ''low'') = ''critical'') ?fs) = 1"
          "length (filter (\<lambda>f. toLowerCase (or_str (severity f) ''low'') = ''high'') ?fs) = 1"
          "length (filter (\<lambda>f. toLowerCase (or_str (severity f) ''low'') = ''medium'') ?fs) = 0"
          "length (filter (\<lambda>f. toLowerCase (or_str (severity f) ''low'') = ''low'') ?fs) = 1"
    by code_simp+
  show ?thesis
    using runCiscoScanner_score [of findings_world "''/skills/weather''" ?fs] h1
          runCiscoScanner_score [of weather_world "''/skills/weather''" _ "''Command failed''"] h2
    unfolding c by simp
qed

text \<open>
  C9. The exit status should be 0 for the grades that pass and 1 for the grades that
  fail or an error. The expression \<^verbatim>\<open>exitCodes[result.grade] || 1\<close> takes the default
  for the entry 0 as well: a scan graded A exits with status 1, as do B and C.
\<close>

theorem passing_grade_exits_1:
  "(case scoreSkill perfect_world ''/skills/weather'' None of
      Inr r \<Rightarrow> overallScore r = 100 \<and> grade r = ''A''
    | Inl e \<Rightarrow> False)
   \<and> main perfect_world [''/skills/weather''] = 1
   \<and> exit_status ''A'' = 1 \<and> exit_status ''B'' = 1 \<and> exit_status ''C'' = 1"
  by code_simp

text \<open>
  C10. The recency bonus compares the commit date with the date six calendar months
  before the scan, the recommendation counts more than 180 days: a commit of
  2026-05-03, scanned on 2026-11-02, is later than 2026-05-02 and earns the 10 points,
  and it is 183 days old, so the "Update repository" string is emitted in the same scan.
\<close>

theorem recency_windows_disagree:
  "setMonth stale_world (clock_six_months stale_world)
       (getMonth stale_world (clock_six_months stale_world) - 6) = Date 1777680000000
   \<and> getLastCommitDate stale_world ''/skills/weather'' = Some (Date 1777766400000)
   \<and> (case analyzeMaintenance stale_world ''/skills/weather'' of
         Inr c \<Rightarrow> score c = 5 + 10
                 \<and> map_option lastCommit (details c)
                     = Some (Some (LastCommit 1777766400000 183 True))
       | Inl e \<Rightarrow> False)
   \<and> (case scoreSkill stale_world ''/skills/weather'' None of
         Inr r \<Rightarrow> msg_update 183 \<in> set (recommendations r)
                 \<and> msg_update 183 = ''Update repository (last commit 183 days ago)''
       | Inl e \<Rightarrow> False)"
  by code_simp

end
